theory Spec2Isabelle
  imports Main "HOL-Library.Word"
begin

section \<open>The conformance server of CEL Go: data model\<close>

text \<open>
  The development follows \<^verbatim>\<open>server/server.go\<close>. Go values are modelled as follows:
  \<^item> \<^verbatim>\<open>int\<close> and \<^verbatim>\<open>int64\<close> are 64-bit words, \<^verbatim>\<open>int32\<close> is a 32-bit word, a
    \<^verbatim>\<open>float64\<close> is its 64-bit IEEE pattern (the server only copies doubles);
  \<^item> a \<^verbatim>\<open>nil\<close> interface or pointer that the code dereferences is \<open>None\<close>, and the
    dereference is a panic;
  \<^item> a function returning \<^verbatim>\<open>(T, error)\<close> returns \<open>go_error + T\<close>, or
    \<open>failure + T\<close> where it may also panic;
  \<^item> protocol-buffer messages are records carrying the field names of their schema.
\<close>

type_synonym int32 = "32 word"
type_synonym int64 = "64 word"
type_synonym uint64 = "64 word"
type_synonym float64 = "64 word"
type_synonym bytes = "8 word list"

subsection \<open>Status codes and status messages (\<^verbatim>\<open>google.rpc.Status\<close>)\<close>

type_synonym Code = "32 word"

definition codes_OK :: Code where "codes_OK = 0"
definition codes_Unknown :: Code where "codes_Unknown = 2"
definition codes_InvalidArgument :: Code where "codes_InvalidArgument = 3"

record Any =
  type_url :: string
  val :: bytes

record Status =
  code :: Code
  message :: string
  details :: "Any list"

subsection \<open>Go errors\<close>

text \<open>
  An \<^verbatim>\<open>error\<close> is either an ordinary error, known by its text, or an error made by
  \<^verbatim>\<open>(*status.Status).Err\<close>, which carries its status (method \<^verbatim>\<open>GRPCStatus\<close>).
\<close>

datatype go_error = PlainError string | StatusError Status

datatype failure = Failed go_error | Panic string

definition nil_dereference :: string where
  "nil_dereference = ''invalid memory address or nil pointer dereference''"

subsection \<open>Diagnostics of the engine (\<^verbatim>\<open>common.Error\<close>) and their wire detail\<close>

record Location =
  Description :: string
  Line :: int64
  Column :: int64

record common_Error =
  Location :: "Location option"
  Message :: string

datatype IssueDetails_Severity =
  IssueDetails_SEVERITY_UNSPECIFIED
  | IssueDetails_DEPRECATION
  | IssueDetails_WARNING
  | IssueDetails_ERROR

record SourcePosition =
  location :: string
  offset :: int32
  line :: int32
  column :: int32

record IssueDetails =
  severity :: IssueDetails_Severity
  position :: "SourcePosition option"
  issue_id :: int64

section \<open>The \<^verbatim>\<open>status\<close> and \<^verbatim>\<open>codes\<close> packages of gRPC\<close>

text \<open>
  These functions belong to the library \<^verbatim>\<open>google.golang.org/grpc\<close>, which the server
  imports; they are written here after the library's documented behaviour. A
  \<^verbatim>\<open>*status.Status\<close> is identified with the status message it wraps, so \<^verbatim>\<open>Proto\<close>
  returns it unchanged.
\<close>

definition status_New :: "Code \<Rightarrow> string \<Rightarrow> Status" where
  "status_New c msg = \<lparr>code = c, message = msg, details = []\<rparr>"

definition Proto :: "Status \<Rightarrow> Status" where
  "Proto s = s"

text \<open>\<^verbatim>\<open>Err\<close> is \<^verbatim>\<open>nil\<close> for the code OK and the status as an error otherwise.\<close>

definition status_Err :: "Status \<Rightarrow> go_error option" where
  "status_Err s = (if code s = codes_OK then None else Some (StatusError s))"

fun digit_char :: "nat \<Rightarrow> char" where
  "digit_char n = char_of (48 + n)"

fun FormatInt :: "nat \<Rightarrow> string" where
  "FormatInt n = (if n < 10 then [digit_char n] else FormatInt (n div 10) @ [digit_char (n mod 10)])"

declare FormatInt.simps [simp del]

definition Code_String :: "Code \<Rightarrow> string" where
  "Code_String c =
    (if c = 0 then ''OK''
     else if c = 1 then ''Canceled''
     else if c = 2 then ''Unknown''
     else if c = 3 then ''InvalidArgument''
     else if c = 4 then ''DeadlineExceeded''
     else if c = 5 then ''NotFound''
     else if c = 6 then ''AlreadyExists''
     else if c = 7 then ''PermissionDenied''
     else if c = 8 then ''ResourceExhausted''
     else if c = 9 then ''FailedPrecondition''
     else if c = 10 then ''Aborted''
     else if c = 11 then ''OutOfRange''
     else if c = 12 then ''Unimplemented''
     else if c = 13 then ''Internal''
     else if c = 14 then ''Unavailable''
     else if c = 15 then ''DataLoss''
     else if c = 16 then ''Unauthenticated''
     else ''Code('' @ FormatInt (unat c) @ '')'')"

text \<open>The method \<^verbatim>\<open>Error\<close> of an error: its text.\<close>

fun Error :: "go_error \<Rightarrow> string" where
  "Error (PlainError msg) = msg"
| "Error (StatusError s) =
     ''rpc error: code = '' @ Code_String (code s) @ '' desc = '' @ message s"

text \<open>
  \<^verbatim>\<open>Convert\<close> returns the status an error carries, and for any other error a status
  with the code Unknown and the error's text.
\<close>

fun status_Convert :: "go_error \<Rightarrow> Status" where
  "status_Convert (StatusError s) = s"
| "status_Convert (PlainError msg) = status_New codes_Unknown msg"

text \<open>
  \<^verbatim>\<open>WithDetails\<close> refuses a status with the code OK; otherwise it encodes each detail
  (\<^verbatim>\<open>MarshalAny\<close>, a parameter here: the encoding may fail) and appends it to a copy,
  giving up at the first detail that cannot be encoded.
\<close>

type_synonym MarshalAny = "IssueDetails \<Rightarrow> go_error + Any"

fun append_details :: "MarshalAny \<Rightarrow> Status \<Rightarrow> IssueDetails list \<Rightarrow> go_error + Status" where
  "append_details marshal p [] = Inr p"
| "append_details marshal p (d # ds) =
     (case marshal d of
        Inl err \<Rightarrow> Inl err
      | Inr a \<Rightarrow> append_details marshal (p\<lparr>details := details p @ [a]\<rparr>) ds)"

definition WithDetails :: "MarshalAny \<Rightarrow> Status \<Rightarrow> IssueDetails list \<Rightarrow> go_error + Status" where
  "WithDetails marshal s ds =
    (if code s = codes_OK then Inl (PlainError ''no error details for status with code OK'')
     else append_details marshal (Proto s) ds)"

section \<open>Translating diagnostics: \<^verbatim>\<open>ErrToStatus\<close> and \<^verbatim>\<open>appendErrors\<close>\<close>

text \<open>The conversion \<^verbatim>\<open>int32(x)\<close> of a Go \<^verbatim>\<open>int\<close> keeps the low 32 bits.\<close>

definition to_int32 :: "int64 \<Rightarrow> int32" where
  "to_int32 x = ucast x"

text \<open>
  \<^verbatim>\<open>ErrToStatus\<close> calls the methods \<^verbatim>\<open>Line\<close> and \<^verbatim>\<open>Column\<close> of the diagnostic's
  location, which panics when the location is \<^verbatim>\<open>nil\<close>.
\<close>

definition ErrToStatus ::
  "MarshalAny \<Rightarrow> common_Error \<Rightarrow> IssueDetails_Severity \<Rightarrow> failure + Status" where
  "ErrToStatus marshal e sev =
    (case Location e of
       None \<Rightarrow> Inl (Panic nil_dereference)
     | Some loc \<Rightarrow>
         let detail = \<lparr>severity = sev,
                       position = Some \<lparr>location = [], offset = 0,
                                        line = to_int32 (Line loc),
                                        column = to_int32 (Column loc)\<rparr>,
                       issue_id = 0\<rparr>;
             s = status_New codes_InvalidArgument (Message e)
         in (case WithDetails marshal s [detail] of
               Inr sd \<Rightarrow> Inr (Proto sd)
             | Inl err \<Rightarrow> Inr (Proto s)))"

text \<open>The loop of \<^verbatim>\<open>appendErrors\<close>; the issue list behind the pointer is returned.\<close>

fun appendErrors :: "MarshalAny \<Rightarrow> common_Error list \<Rightarrow> Status list \<Rightarrow> failure + Status list" where
  "appendErrors marshal [] issues = Inr issues"
| "appendErrors marshal (e # errs) issues =
     (case ErrToStatus marshal e IssueDetails_ERROR of
        Inl f \<Rightarrow> Inl f
      | Inr status \<Rightarrow> appendErrors marshal errs (issues @ [status]))"

section \<open>Host values and wire values\<close>

text \<open>
  Modelled from the spec: the host values (\<^verbatim>\<open>ref.Val\<close>) and the wire success values
  (\<^verbatim>\<open>exprpb.Value\<close>), whose types are declared outside the source files. A host value
  is a scalar, the error value with its message, the unknown value with its identifiers, or
  any other value of the engine (list, map, message, type), of the type \<open>'h\<close>. A wire
  success value is a scalar or anything else the schema allows (enum, list, map, message,
  type, or no kind at all), of the type \<open>'w\<close>.
\<close>

datatype 'h RefVal =
  types_NullValue
  | types_Bool bool
  | types_Int int64
  | types_Uint uint64
  | types_Double float64
  | types_String string
  | types_Bytes bytes
  | types_Err string
  | types_Unknown "int64 list"
  | types_Other 'h

datatype 'w Value =
  NullValue
  | BoolValue bool
  | Int64Value int64
  | Uint64Value uint64
  | DoubleValue float64
  | StringValue string
  | BytesValue bytes
  | OtherValue 'w

record ErrorSet =
  Errors :: "Status list"

record UnknownSet =
  Exprs :: "int64 list"

datatype 'w ExprValue_Kind =
  ExprValue_Value "'w Value"
  | ExprValue_Error ErrorSet
  | ExprValue_Unknown UnknownSet

record 'w ExprValue =
  Kind :: "'w ExprValue_Kind option"

text \<open>\<^verbatim>\<open>types.NewErr\<close> with a format that has no verb: the error value with that text.\<close>

definition types_NewErr :: "string \<Rightarrow> 'h RefVal" where
  "types_NewErr format = types_Err format"

fun is_scalar :: "'h RefVal \<Rightarrow> bool" where
  "is_scalar types_NullValue = True"
| "is_scalar (types_Bool b) = True"
| "is_scalar (types_Int i) = True"
| "is_scalar (types_Uint u) = True"
| "is_scalar (types_Double d) = True"
| "is_scalar (types_String s) = True"
| "is_scalar (types_Bytes b) = True"
| "is_scalar (types_Err m) = False"
| "is_scalar (types_Unknown ids) = False"
| "is_scalar (types_Other h) = False"

text \<open>
  Modelled from the spec: \<^verbatim>\<open>cel.RefValueToValue\<close>, which the server calls and which
  is not among the source files. The spec: a primitive scalar becomes the matching scalar
  wire tag, the value copied verbatim. What it does with every other host value is the
  parameter \<open>other\<close>.
\<close>

fun RefValueToValue :: "('h RefVal \<Rightarrow> go_error + 'w Value) \<Rightarrow> 'h RefVal \<Rightarrow> go_error + 'w Value" where
  "RefValueToValue other types_NullValue = Inr NullValue"
| "RefValueToValue other (types_Bool b) = Inr (BoolValue b)"
| "RefValueToValue other (types_Int i) = Inr (Int64Value i)"
| "RefValueToValue other (types_Uint u) = Inr (Uint64Value u)"
| "RefValueToValue other (types_Double d) = Inr (DoubleValue d)"
| "RefValueToValue other (types_String s) = Inr (StringValue s)"
| "RefValueToValue other (types_Bytes b) = Inr (BytesValue b)"
| "RefValueToValue other (types_Err m) = other (types_Err m)"
| "RefValueToValue other (types_Unknown ids) = other (types_Unknown ids)"
| "RefValueToValue other (types_Other h) = other (types_Other h)"

text \<open>
  Modelled from the spec: \<^verbatim>\<open>cel.ValueToRefValue\<close>, which the server calls and which
  is not among the source files. The spec: leaf scalars convert directly; everything else
  is built with the construction capability, the type adapter, here the function the
  adapter provides on the rest of the wire values.
\<close>

type_synonym ('w, 'h) TypeAdapter = "'w \<Rightarrow> go_error + 'h RefVal"

fun ValueToRefValue :: "('w, 'h) TypeAdapter \<Rightarrow> 'w Value \<Rightarrow> go_error + 'h RefVal" where
  "ValueToRefValue adapter NullValue = Inr types_NullValue"
| "ValueToRefValue adapter (BoolValue b) = Inr (types_Bool b)"
| "ValueToRefValue adapter (Int64Value i) = Inr (types_Int i)"
| "ValueToRefValue adapter (Uint64Value u) = Inr (types_Uint u)"
| "ValueToRefValue adapter (DoubleValue d) = Inr (types_Double d)"
| "ValueToRefValue adapter (StringValue s) = Inr (types_String s)"
| "ValueToRefValue adapter (BytesValue b) = Inr (types_Bytes b)"
| "ValueToRefValue adapter (OtherValue w) = adapter w"

section \<open>The value adapter: \<^verbatim>\<open>RefValueToExprValue\<close> and \<^verbatim>\<open>ExprValueToRefValue\<close>\<close>

text \<open>
  \<^verbatim>\<open>RefValueToExprValue\<close>. The host value is a Go interface, \<open>None\<close> when \<^verbatim>\<open>nil\<close>;
  \<^verbatim>\<open>types.IsUnknown\<close> calls its method \<^verbatim>\<open>Type\<close>, a panic on \<^verbatim>\<open>nil\<close>. The test
  \<^verbatim>\<open>types.IsUnknown(res)\<close> and the assertion \<^verbatim>\<open>res.Value().([]int64)\<close> are the case
  \<open>types_Unknown\<close>.
\<close>

definition RefValueToExprValue ::
  "('h RefVal \<Rightarrow> go_error + 'w Value) \<Rightarrow> 'h RefVal option \<Rightarrow> go_error option
     \<Rightarrow> failure + 'w ExprValue" where
  "RefValueToExprValue other res err =
    (case err of
       Some e \<Rightarrow>
         let s = Proto (status_Convert e)
         in Inr \<lparr>Kind = Some (ExprValue_Error \<lparr>Errors = [s]\<rparr>)\<rparr>
     | None \<Rightarrow>
         (case res of
            None \<Rightarrow> Inl (Panic nil_dereference)
          | Some (types_Unknown ids) \<Rightarrow>
              Inr \<lparr>Kind = Some (ExprValue_Unknown \<lparr>Exprs = ids\<rparr>)\<rparr>
          | Some r \<Rightarrow>
              (case RefValueToValue other r of
                 Inl err \<Rightarrow> Inl (Failed err)
               | Inr v \<Rightarrow> Inr \<lparr>Kind = Some (ExprValue_Value v)\<rparr>)))"

text \<open>
  \<^verbatim>\<open>ExprValueToRefValue\<close>. The result is the pair the Go function returns: an error, or
  a host value, which is \<open>None\<close> for \<^verbatim>\<open>nil\<close>. A wire value with no kind set has
  \<open>Kind = None\<close>.
\<close>

definition ExprValueToRefValue ::
  "('w, 'h) TypeAdapter \<Rightarrow> 'w ExprValue \<Rightarrow> go_error + 'h RefVal option" where
  "ExprValueToRefValue adapter ev =
    (case Kind ev of
       Some (ExprValue_Value v) \<Rightarrow> map_sum id Some (ValueToRefValue adapter v)
     | Some (ExprValue_Error es) \<Rightarrow> Inr (Some (types_NewErr ''XXX add details later''))
     | Some (ExprValue_Unknown u) \<Rightarrow> Inr (Some (types_Unknown (Exprs u)))
     | None \<Rightarrow>
         (case status_Err (status_New codes_InvalidArgument ''unknown ExprValue kind'') of
            Some err \<Rightarrow> Inl err
          | None \<Rightarrow> Inr None))"

section \<open>The request handlers \<^verbatim>\<open>Parse\<close> and \<^verbatim>\<open>Eval\<close>\<close>

text \<open>
  The engine behind the handlers (package \<^verbatim>\<open>cel\<close>) and the encoder of details are
  parameters, collected in a record: environments \<open>'env\<close>, abstract syntax trees \<open>'ast\<close>,
  parsed and checked expressions \<open>'pe\<close> and \<open>'ce\<close>. A program is the function its method
  \<^verbatim>\<open>Eval\<close> computes, the evaluation details left out. An \<^verbatim>\<open>*Issues\<close> is known by
  what its methods \<^verbatim>\<open>Err\<close> and \<^verbatim>\<open>Errors\<close> return.
\<close>

datatype EnvOption = cel_ClearMacros | cel_Container string | cel_Types "string list"

definition test2pb_TestAllTypes :: string where
  "test2pb_TestAllTypes = ''google.api.expr.test.v1.proto2.TestAllTypes''"

definition test3pb_TestAllTypes :: string where
  "test3pb_TestAllTypes = ''google.api.expr.test.v1.proto3.TestAllTypes''"

record Issues =
  Issues_Err :: "go_error option"
  Issues_Errors :: "common_Error list"

type_synonym 'h Program =
  "(string \<rightharpoonup> 'h RefVal option) \<Rightarrow> 'h RefVal option \<times> go_error option"

record ('env, 'ast, 'pe, 'ce, 'h, 'w) Engine =
  NewEnv :: "EnvOption list \<Rightarrow> 'env"
  env_Parse :: "'env \<Rightarrow> string \<Rightarrow> 'ast \<times> Issues option"
  AstToParsedExpr :: "'ast \<Rightarrow> 'pe option"
  ParsedExprToAst :: "'pe \<Rightarrow> 'ast"
  CheckedExprToAst :: "'ce \<Rightarrow> 'ast"
  env_Program :: "'env \<Rightarrow> 'ast \<Rightarrow> go_error + 'h Program"
  env_TypeAdapter :: "'env \<Rightarrow> ('w, 'h) TypeAdapter"
  convert_other :: "'h RefVal \<Rightarrow> go_error + 'w Value"
  MarshalAny :: MarshalAny

record ParseRequest =
  CelSource :: string
  SyntaxVersion :: string
  SourceLocation :: string
  DisableMacros :: bool

record 'pe ParseResponse =
  ParsedExpr :: "'pe option"
  Issues :: "Status list"

text \<open>
  \<^verbatim>\<open>Parse\<close>. Besides what the handler returns (an error, a panic, or the response
  pointer), the model records the calls of \<^verbatim>\<open>env.Parse\<close> the handler makes: the list of
  the source texts handed to the parser. The test \<^verbatim>\<open>iss == nil || iss.Err() == nil\<close> is
  the case distinction on \<open>iss\<close>, both of whose first branches are the success branch.
\<close>

definition Parse ::
  "('env, 'ast, 'pe, 'ce, 'h, 'w) Engine \<Rightarrow> ParseRequest
     \<Rightarrow> string list \<times> (failure + 'pe ParseResponse option)" where
  "Parse eng inp =
    (if CelSource inp = [] then
       ([], case status_Err (status_New codes_InvalidArgument ''No source code.'') of
              Some err \<Rightarrow> Inl (Failed err)
            | None \<Rightarrow> Inr None)
     else
       let parseOptions = (if DisableMacros inp then [cel_ClearMacros] else []);
           env = NewEnv eng parseOptions;
           (past, iss) = env_Parse eng env (CelSource inp)
       in ([CelSource inp],
           (case iss of
              None \<Rightarrow> Inr (Some \<lparr>ParsedExpr = AstToParsedExpr eng past, Issues = []\<rparr>)
            | Some i \<Rightarrow>
                if Issues_Err i = None then
                  Inr (Some \<lparr>ParsedExpr = AstToParsedExpr eng past, Issues = []\<rparr>)
                else
                  (case appendErrors (MarshalAny eng) (Issues_Errors i) [] of
                     Inl f \<Rightarrow> Inl f
                   | Inr issues \<Rightarrow> Inr (Some \<lparr>ParsedExpr = None, Issues = issues\<rparr>)))))"

datatype ('pe, 'ce) EvalRequest_ExprKind =
  EvalRequest_ParsedExpr 'pe
  | EvalRequest_CheckedExpr 'ce

record ('pe, 'ce, 'w) EvalRequest =
  ExprKind :: "('pe, 'ce) EvalRequest_ExprKind option"
  Bindings :: "(string \<times> 'w ExprValue) list"
  Container :: string

record 'w EvalResponse =
  Result :: "'w ExprValue option"
  Issues_eval :: "Status list"

text \<open>
  The loop over the bindings of \<^verbatim>\<open>Eval\<close>: the map of the request is given as the list
  of its entries in the order the loop meets them.
\<close>

fun convert_bindings ::
  "('w, 'h) TypeAdapter \<Rightarrow> (string \<times> 'w ExprValue) list \<Rightarrow> (string \<rightharpoonup> 'h RefVal option)
     \<Rightarrow> failure + (string \<rightharpoonup> 'h RefVal option)" where
  "convert_bindings adapter [] args = Inr args"
| "convert_bindings adapter ((name, exprValue) # rest) args =
     (case ExprValueToRefValue adapter exprValue of
        Inl err \<Rightarrow>
          Inl (Failed (PlainError (''can't convert binding '' @ name @ '': '' @ Error err)))
      | Inr refVal \<Rightarrow> convert_bindings adapter rest (args(name \<mapsto> refVal)))"

text \<open>The part of \<^verbatim>\<open>Eval\<close> after the program is built.\<close>

definition Eval_program ::
  "('env, 'ast, 'pe, 'ce, 'h, 'w) Engine \<Rightarrow> 'env \<Rightarrow> 'h Program \<Rightarrow> ('pe, 'ce, 'w) EvalRequest
     \<Rightarrow> failure + 'w EvalResponse option" where
  "Eval_program eng env prg inp =
    (case convert_bindings (env_TypeAdapter eng env) (Bindings inp) Map.empty of
       Inl f \<Rightarrow> Inl f
     | Inr args \<Rightarrow>
         let (res, err) = prg args
         in (case RefValueToExprValue (convert_other eng) res err of
               Inl (Failed err) \<Rightarrow>
                 Inl (Failed (PlainError (''con't convert result: '' @ Error err)))
             | Inl (Panic p) \<Rightarrow> Inl (Panic p)
             | Inr resultExprVal \<Rightarrow>
                 Inr (Some \<lparr>Result = Some resultExprVal, Issues_eval = []\<rparr>)))"

definition Eval ::
  "('env, 'ast, 'pe, 'ce, 'h, 'w) Engine \<Rightarrow> ('pe, 'ce, 'w) EvalRequest
     \<Rightarrow> failure + 'w EvalResponse option" where
  "Eval eng inp =
    (let env = NewEnv eng [cel_Container (Container inp),
                           cel_Types [test2pb_TestAllTypes, test3pb_TestAllTypes]]
     in (case ExprKind inp of
           Some (EvalRequest_ParsedExpr pe) \<Rightarrow>
             (let ast = ParsedExprToAst eng pe
              in (case env_Program eng env ast of
                    Inl err \<Rightarrow> Inl (Failed err)
                  | Inr prg \<Rightarrow> Eval_program eng env prg inp))
         | Some (EvalRequest_CheckedExpr ce) \<Rightarrow>
             (let ast = CheckedExprToAst eng ce
              in (case env_Program eng env ast of
                    Inl err \<Rightarrow> Inl (Failed err)
                  | Inr prg \<Rightarrow> Eval_program eng env prg inp))
         | None \<Rightarrow>
             (case status_Err (status_New codes_InvalidArgument ''No expression.'') of
                Some err \<Rightarrow> Inl (Failed err)
              | None \<Rightarrow> Inr None)))"

section \<open>Sample collaborators\<close>

text \<open>
  A small engine to run the handlers on: an environment is its list of options, a tree
  and an expression are the source text, the parser rejects \<open>1 +\<close>, and the program of
  \<open>1 / 0\<close> ends in an evaluation error. Its encoder of details accepts every detail;
  \<open>refuse_MarshalAny\<close> accepts none.
\<close>

definition sample_MarshalAny :: MarshalAny where
  "sample_MarshalAny d =
    Inr \<lparr>type_url = ''type.googleapis.com/google.api.expr.conformance.v1alpha1.IssueDetails'',
         val = (case position d of
                  None \<Rightarrow> []
                | Some p \<Rightarrow> [ucast (line p), ucast (column p)])\<rparr>"

definition refuse_MarshalAny :: MarshalAny where
  "refuse_MarshalAny d = Inl (PlainError ''proto: cannot marshal'')"

definition sample_other :: "unit RefVal \<Rightarrow> go_error + unit Value" where
  "sample_other v = Inl (PlainError ''unsupported type conversion'')"

definition sample_adapter :: "(unit, unit) TypeAdapter" where
  "sample_adapter w = Inl (PlainError ''unknown value'')"

definition sample_Parse :: "EnvOption list \<Rightarrow> string \<Rightarrow> string \<times> Issues option" where
  "sample_Parse env src =
    (if src = ''1 +'' then
       (src, Some \<lparr>Issues_Err = Some (PlainError ''ERROR: <input>:1:4: Syntax error''),
                   Issues_Errors = [\<lparr>Location = Some \<lparr>Description = ''<input>'', Line = 1,
                                                          Column = 4\<rparr>,
                                     Message = ''Syntax error''\<rparr>]\<rparr>)
     else (src, None))"

definition sample_Program :: "EnvOption list \<Rightarrow> string \<Rightarrow> go_error + unit Program" where
  "sample_Program env ast =
    Inr (\<lambda>args. if ast = ''1 / 0'' then (None, Some (PlainError ''division by zero''))
                else (Some (types_Int 1), None))"

definition sample_engine :: "(EnvOption list, string, string, string, unit, unit) Engine" where
  "sample_engine =
    \<lparr>NewEnv = (\<lambda>opts. opts),
     env_Parse = sample_Parse,
     AstToParsedExpr = Some,
     ParsedExprToAst = (\<lambda>pe. pe),
     CheckedExprToAst = (\<lambda>ce. ce),
     env_Program = sample_Program,
     env_TypeAdapter = (\<lambda>env. sample_adapter),
     convert_other = sample_other,
     MarshalAny = sample_MarshalAny\<rparr>"

section \<open>Facts about the status package\<close>

lemma status_Err_InvalidArgument:
  "status_Err (status_New codes_InvalidArgument msg) =
     Some (StatusError \<lparr>code = codes_InvalidArgument, message = msg, details = []\<rparr>)"
  by (simp add: status_Err_def status_New_def codes_InvalidArgument_def codes_OK_def)

lemma WithDetails_single:
  "code s \<noteq> codes_OK \<Longrightarrow>
   WithDetails marshal s [d] =
     (case marshal d of Inl err \<Rightarrow> Inl err | Inr a \<Rightarrow> Inr (s\<lparr>details := details s @ [a]\<rparr>))"
  by (simp add: WithDetails_def Proto_def split: sum.splits)

lemma codes_distinct:
  "codes_InvalidArgument \<noteq> codes_OK" "codes_Unknown \<noteq> codes_InvalidArgument"
  by (simp_all add: codes_InvalidArgument_def codes_OK_def codes_Unknown_def)

text \<open>
  The narrowing \<^verbatim>\<open>int32(x)\<close> keeps every value that fits 32 bits, so the line and column
  of a detail are those of the diagnostic for every source text below \<open>2\<^sup>3\<^sup>1\<close> lines
  and columns.
\<close>

lemma to_int32_exact:
  assumes "- (2 ^ 31) \<le> sint x" and "sint x < 2 ^ 31"
  shows "sint (to_int32 x) = sint x"
proof -
  have "sint (to_int32 x) = signed_take_bit 31 (take_bit 32 (uint x))"
    by (simp add: to_int32_def sint_uint unsigned_ucast_eq)
  also have "\<dots> = signed_take_bit 31 (uint x)"
    by (simp add: signed_take_bit_take_bit)
  also have "\<dots> = signed_take_bit 31 (signed_take_bit 63 (uint x))"
    by (simp add: signed_take_bit_signed_take_bit)
  also have "\<dots> = signed_take_bit 31 (sint x)"
    by (simp add: sint_uint)
  also have "\<dots> = sint x"
    using assms by (simp add: signed_take_bit_int_eq_self)
  finally show ?thesis .
qed

section \<open>Diagnostics become status records\<close>

lemma ErrToStatus_located:
  "Location e = Some loc \<Longrightarrow>
   ErrToStatus marshal e sev =
     Inr \<lparr>code = codes_InvalidArgument, message = Message e,
          details =
            (case marshal \<lparr>severity = sev,
                           position = Some \<lparr>location = [], offset = 0,
                                            line = to_int32 (Line loc),
                                            column = to_int32 (Column loc)\<rparr>,
                           issue_id = 0\<rparr> of
               Inl err \<Rightarrow> []
             | Inr a \<Rightarrow> [a])\<rparr>"
  by (simp add: ErrToStatus_def Let_def WithDetails_single status_New_def Proto_def
      codes_distinct split: sum.splits)

lemma ErrToStatus_returns:
  "Location e \<noteq> None \<Longrightarrow> \<exists>st. ErrToStatus marshal e sev = Inr st"
  using ErrToStatus_located [of e] by blast

lemma appendErrors_append:
  "\<forall>e \<in> set errs. Location e \<noteq> None \<Longrightarrow>
   \<exists>sts. appendErrors marshal errs issues = Inr (issues @ sts) \<and>
         map (\<lambda>e. ErrToStatus marshal e IssueDetails_ERROR) errs = map Inr sts"
proof (induction errs arbitrary: issues)
  case Nil
  then show ?case by simp
next
  case (Cons e errs)
  from Cons.prems obtain st where st: "ErrToStatus marshal e IssueDetails_ERROR = Inr st"
    using ErrToStatus_returns [of e marshal IssueDetails_ERROR] by auto
  from Cons.prems have "\<forall>e \<in> set errs. Location e \<noteq> None" by simp
  from Cons.IH [OF this, of "issues @ [st]"] obtain sts where
    sts: "appendErrors marshal errs (issues @ [st]) = Inr ((issues @ [st]) @ sts)"
      "map (\<lambda>e. ErrToStatus marshal e IssueDetails_ERROR) errs = map Inr sts"
    by blast
  have "appendErrors marshal (e # errs) issues = Inr (issues @ (st # sts))"
    using st sts(1) by simp
  moreover have "map (\<lambda>e. ErrToStatus marshal e IssueDetails_ERROR) (e # errs) = map Inr (st # sts)"
    using st sts(2) by simp
  ultimately show ?case by blast
qed

text \<open>
  C6. A diagnostic with its position becomes a status record with the code InvalidArgument
  and the diagnostic's message verbatim. The detail made of the severity, the line and the
  column (each narrowed to 32 bits) is attached when it can be encoded; when it cannot,
  the plain record without details is returned. Either way \<^verbatim>\<open>ErrToStatus\<close> returns a
  record.
\<close>

theorem ErrToStatus_status:
  assumes "Location e = Some loc"
  shows "ErrToStatus marshal e sev =
     Inr \<lparr>code = codes_InvalidArgument, message = Message e,
          details =
            (case marshal \<lparr>severity = sev,
                           position = Some \<lparr>location = [], offset = 0,
                                            line = to_int32 (Line loc),
                                            column = to_int32 (Column loc)\<rparr>,
                           issue_id = 0\<rparr> of
               Inl err \<Rightarrow> []
             | Inr a \<Rightarrow> [a])\<rparr>"
  using assms
  by (simp add: ErrToStatus_def Let_def WithDetails_single status_New_def Proto_def
      codes_distinct split: sum.splits)

theorem ErrToStatus_status_witness:
  "Location \<lparr>Location = Some \<lparr>Description = ''<input>'', Line = 3, Column = 5\<rparr>,
             Message = ''unexpected token''\<rparr>
     = Some \<lparr>Description = ''<input>'', Line = 3, Column = 5\<rparr>
   \<and> ErrToStatus sample_MarshalAny
        \<lparr>Location = Some \<lparr>Description = ''<input>'', Line = 3, Column = 5\<rparr>,
         Message = ''unexpected token''\<rparr> IssueDetails_WARNING
     = Inr \<lparr>code = 3, message = ''unexpected token'',
            details = [\<lparr>type_url =
                          ''type.googleapis.com/google.api.expr.conformance.v1alpha1.IssueDetails'',
                        val = [3, 5]\<rparr>]\<rparr>
   \<and> ErrToStatus refuse_MarshalAny
        \<lparr>Location = Some \<lparr>Description = ''<input>'', Line = 3, Column = 5\<rparr>,
         Message = ''unexpected token''\<rparr> IssueDetails_WARNING
     = Inr \<lparr>code = 3, message = ''unexpected token'', details = []\<rparr>"
  using ErrToStatus_status [where e = "\<lparr>Location = Some \<lparr>Description = ''<input>'', Line = 3,
               Column = 5\<rparr>, Message = ''unexpected token''\<rparr>"
             and loc = "\<lparr>Description = ''<input>'', Line = 3, Column = 5\<rparr>"
             and marshal = sample_MarshalAny and sev = IssueDetails_WARNING]
    ErrToStatus_status [where e = "\<lparr>Location = Some \<lparr>Description = ''<input>'', Line = 3,
               Column = 5\<rparr>, Message = ''unexpected token''\<rparr>"
             and loc = "\<lparr>Description = ''<input>'', Line = 3, Column = 5\<rparr>"
             and marshal = refuse_MarshalAny and sev = IssueDetails_WARNING]
  by (simp add: sample_MarshalAny_def refuse_MarshalAny_def to_int32_def codes_InvalidArgument_def)

text \<open>
  C7. For diagnostics that all carry a position, \<^verbatim>\<open>appendErrors\<close> returns the issue list
  it was given followed by exactly one status record per diagnostic, the record
  \<^verbatim>\<open>ErrToStatus\<close> makes of it with the severity ERROR, in the order of the diagnostics.
\<close>

theorem appendErrors_one_per_diagnostic:
  assumes "\<forall>e \<in> set errs. Location e \<noteq> None"
  shows "(case appendErrors marshal errs issues of
            Inl f \<Rightarrow> False
          | Inr out \<Rightarrow>
              take (length issues) out = issues \<and>
              length out = length issues + length errs \<and>
              map (\<lambda>e. ErrToStatus marshal e IssueDetails_ERROR) errs
                = map Inr (drop (length issues) out))"
proof -
  from appendErrors_append [OF assms, of marshal issues] obtain sts where
    sts: "appendErrors marshal errs issues = Inr (issues @ sts)"
      "map (\<lambda>e. ErrToStatus marshal e IssueDetails_ERROR) errs = map Inr sts"
    by blast
  from sts(2) have "length errs = length sts"
    by (metis length_map)
  with sts show ?thesis by simp
qed

theorem appendErrors_one_per_diagnostic_witness:
  "list_all (\<lambda>e. Location e \<noteq> None)
      [\<lparr>Location = Some \<lparr>Description = ''<input>'', Line = 1, Column = 4\<rparr>,
        Message = ''Syntax error''\<rparr>,
       \<lparr>Location = Some \<lparr>Description = ''<input>'', Line = 2, Column = 0\<rparr>,
        Message = ''unexpected token''\<rparr>]
   \<and> appendErrors refuse_MarshalAny
        [\<lparr>Location = Some \<lparr>Description = ''<input>'', Line = 1, Column = 4\<rparr>,
          Message = ''Syntax error''\<rparr>,
         \<lparr>Location = Some \<lparr>Description = ''<input>'', Line = 2, Column = 0\<rparr>,
          Message = ''unexpected token''\<rparr>]
        [\<lparr>code = 3, message = ''earlier issue'', details = []\<rparr>]
     = Inr [\<lparr>code = 3, message = ''earlier issue'', details = []\<rparr>,
            \<lparr>code = 3, message = ''Syntax error'', details = []\<rparr>,
            \<lparr>code = 3, message = ''unexpected token'', details = []\<rparr>]"
proof -
  let ?errs = "[\<lparr>Location = Some \<lparr>Description = ''<input>'', Line = 1, Column = 4\<rparr>,
                 Message = ''Syntax error''\<rparr>,
                \<lparr>Location = Some \<lparr>Description = ''<input>'', Line = 2, Column = 0\<rparr>,
                 Message = ''unexpected token''\<rparr>]"
  let ?issues = "[\<lparr>code = 3, message = ''earlier issue'', details = []\<rparr>]"
  have located: "\<forall>e \<in> set ?errs. Location e \<noteq> None" by simp
  have st1: "ErrToStatus refuse_MarshalAny (?errs ! 0) IssueDetails_ERROR
               = Inr \<lparr>code = 3, message = ''Syntax error'', details = []\<rparr>"
    by (simp add: ErrToStatus_located refuse_MarshalAny_def codes_InvalidArgument_def)
  have st2: "ErrToStatus refuse_MarshalAny (?errs ! 1) IssueDetails_ERROR
               = Inr \<lparr>code = 3, message = ''unexpected token'', details = []\<rparr>"
    by (simp add: ErrToStatus_located refuse_MarshalAny_def codes_InvalidArgument_def)
  obtain out where out: "appendErrors refuse_MarshalAny ?errs ?issues = Inr out"
    and pre: "take (length ?issues) out = ?issues"
    and len: "length out = length ?issues + length ?errs"
    and each: "map (\<lambda>e. ErrToStatus refuse_MarshalAny e IssueDetails_ERROR) ?errs
                 = map Inr (drop (length ?issues) out)"
    using appendErrors_one_per_diagnostic [where errs = ?errs and marshal = refuse_MarshalAny
        and issues = ?issues, OF located]
    by (auto split: sum.splits)
  from len obtain a b c where abc: "out = [a, b, c]"
    by (cases out; simp; rename_tac x xs; case_tac xs; simp; rename_tac y ys; case_tac ys; simp)
  from pre abc have "a = \<lparr>code = 3, message = ''earlier issue'', details = []\<rparr>" by simp
  moreover from each abc st1 st2 have "b = \<lparr>code = 3, message = ''Syntax error'', details = []\<rparr>"
    "c = \<lparr>code = 3, message = ''unexpected token'', details = []\<rparr>" by simp_all
  ultimately show ?thesis using located out abc by simp
qed

section \<open>The value adapter\<close>

text \<open>
  C1, as the code has it. With a non-nil evaluation error \<^verbatim>\<open>RefValueToExprValue\<close> ignores
  the host value and returns an error set with exactly one status record, the one
  \<^verbatim>\<open>status.Convert\<close> makes of the error: for an error that carries no status, the code
  Unknown, the error's text as message and no detail; for an error that carries a status,
  that status.
\<close>

theorem RefValueToExprValue_error:
  "RefValueToExprValue other res (Some (PlainError msg)) =
     Inr \<lparr>Kind = Some (ExprValue_Error
            \<lparr>Errors = [\<lparr>code = codes_Unknown, message = msg, details = []\<rparr>]\<rparr>)\<rparr>
   \<and> RefValueToExprValue other res (Some (StatusError st)) =
     Inr \<lparr>Kind = Some (ExprValue_Error \<lparr>Errors = [st]\<rparr>)\<rparr>"
  by (simp add: RefValueToExprValue_def Proto_def status_New_def)

text \<open>
  C1 as stated, with the code InvalidArgument, fails: an evaluation error of the engine
  is an ordinary error, and its status record has the code Unknown.
\<close>

theorem RefValueToExprValue_error_code_counterexample:
  "RefValueToExprValue sample_other (Some (types_Int 1)) (Some (PlainError ''division by zero''))
     = Inr \<lparr>Kind = Some (ExprValue_Error
              \<lparr>Errors = [\<lparr>code = 2, message = ''division by zero'', details = []\<rparr>]\<rparr>)\<rparr>
   \<and> (2 :: Code) \<noteq> codes_InvalidArgument"
  by (simp add: RefValueToExprValue_def Proto_def status_New_def codes_Unknown_def
      codes_InvalidArgument_def)

text \<open>
  C2. Every error-set wire value, whatever its status records, converts to the host error
  value with the message \<open>XXX add details later\<close>.
\<close>

theorem ExprValueToRefValue_error_set:
  "ExprValueToRefValue adapter \<lparr>Kind = Some (ExprValue_Error es)\<rparr>
     = Inr (Some (types_Err ''XXX add details later''))"
  by (simp add: ExprValueToRefValue_def types_NewErr_def)

text \<open>
  C3. A scalar host value (null, bool, integer, unsigned integer, double, string, bytes)
  converted to a wire value with no error, and that wire value converted back, is the
  value again. A double is its 64-bit pattern, so that a NaN comes back as the same NaN.
\<close>

theorem scalar_round_trip:
  assumes "is_scalar v"
  shows "(case RefValueToExprValue other (Some v) None of
            Inl f \<Rightarrow> False
          | Inr ev \<Rightarrow> ExprValueToRefValue adapter ev = Inr (Some v))"
  using assms
  by (cases v) (simp_all add: RefValueToExprValue_def ExprValueToRefValue_def)

theorem scalar_round_trip_witness:
  "is_scalar (types_Double 0x7FF8000000000001 :: unit RefVal)
   \<and> RefValueToExprValue sample_other (Some (types_Double 0x7FF8000000000001)) None
       = Inr \<lparr>Kind = Some (ExprValue_Value (DoubleValue 0x7FF8000000000001))\<rparr>
   \<and> ExprValueToRefValue sample_adapter
        \<lparr>Kind = Some (ExprValue_Value (DoubleValue 0x7FF8000000000001))\<rparr>
       = Inr (Some (types_Double 0x7FF8000000000001))"
  using scalar_round_trip [where v = "types_Double 0x7FF8000000000001 :: unit RefVal"
      and other = sample_other and adapter = sample_adapter]
  by (simp add: RefValueToExprValue_def)

text \<open>
  C4. The unknown host value with no error becomes an unknown-set wire value with the
  same identifiers in the same order; the identifiers 1, 3, 5 stay 1, 3, 5.
\<close>

theorem RefValueToExprValue_unknown:
  "RefValueToExprValue other (Some (types_Unknown ids)) None
     = Inr \<lparr>Kind = Some (ExprValue_Unknown \<lparr>Exprs = ids\<rparr>)\<rparr>
   \<and> RefValueToExprValue other (Some (types_Unknown [1, 3, 5])) None
     = Inr \<lparr>Kind = Some (ExprValue_Unknown \<lparr>Exprs = [1, 3, 5]\<rparr>)\<rparr>"
  by (simp add: RefValueToExprValue_def)

text \<open>
  C5. A wire value with no kind set does not convert: \<^verbatim>\<open>ExprValueToRefValue\<close> returns
  the error of the status InvalidArgument with the message \<open>unknown ExprValue kind\<close>, and
  no host value.
\<close>

theorem ExprValueToRefValue_no_kind:
  "ExprValueToRefValue adapter \<lparr>Kind = None\<rparr>
     = Inl (StatusError \<lparr>code = codes_InvalidArgument, message = ''unknown ExprValue kind'',
                         details = []\<rparr>)"
  by (simp add: ExprValueToRefValue_def status_Err_InvalidArgument)

section \<open>The handlers\<close>

lemma convert_bindings_succeeds:
  "\<forall>(name, ev) \<in> set bs. \<exists>v. ExprValueToRefValue adapter ev = Inr v \<Longrightarrow>
   \<exists>args. convert_bindings adapter bs m = Inr args"
proof (induction bs arbitrary: m)
  case Nil
  then show ?case by simp
next
  case (Cons b bs)
  obtain name ev where b: "b = (name, ev)" by (cases b)
  with Cons.prems obtain v where v: "ExprValueToRefValue adapter ev = Inr v" by auto
  from Cons.prems have "\<forall>(name, ev) \<in> set bs. \<exists>v. ExprValueToRefValue adapter ev = Inr v"
    by simp
  from Cons.IH [OF this, of "m(name \<mapsto> v)"] obtain args where
    "convert_bindings adapter bs (m(name \<mapsto> v)) = Inr args" by blast
  with v b have "convert_bindings adapter (b # bs) m = Inr args" by simp
  then show ?case by blast
qed

text \<open>
  C8. A request whose source text is empty is refused with the error of the status
  InvalidArgument and the message \<open>No source code.\<close>, and the parser is not called.
\<close>

theorem Parse_empty_source:
  assumes "CelSource inp = []"
  shows "Parse eng inp =
     ([], Inl (Failed (StatusError \<lparr>code = codes_InvalidArgument, message = ''No source code.'',
                                    details = []\<rparr>)))"
  using assms by (simp add: Parse_def status_Err_InvalidArgument)

theorem Parse_empty_source_witness:
  "CelSource \<lparr>CelSource = [], SyntaxVersion = ''cel1'', SourceLocation = ''<input>'',
              DisableMacros = True\<rparr> = []
   \<and> Parse sample_engine \<lparr>CelSource = [], SyntaxVersion = ''cel1'', SourceLocation = ''<input>'',
                          DisableMacros = True\<rparr>
     = ([], Inl (Failed (StatusError \<lparr>code = 3, message = ''No source code.'', details = []\<rparr>)))"
  using Parse_empty_source [where inp = "\<lparr>CelSource = [], SyntaxVersion = ''cel1'',
      SourceLocation = ''<input>'', DisableMacros = True\<rparr>" and eng = sample_engine]
  by (simp add: codes_InvalidArgument_def)

text \<open>
  C9. When the request has a parsed or a checked expression, the program is built, every
  binding converts and the evaluation ends in an error, \<^verbatim>\<open>Eval\<close> returns a response and
  no error: its result is the error-set wire value holding the status record of the
  evaluation error.
\<close>

theorem Eval_error_is_data:
  assumes "ExprKind inp = Some k"
    and "env = NewEnv eng [cel_Container (Container inp),
                           cel_Types [test2pb_TestAllTypes, test3pb_TestAllTypes]]"
    and "env_Program eng env
           (case k of
              EvalRequest_ParsedExpr pe \<Rightarrow> ParsedExprToAst eng pe
            | EvalRequest_CheckedExpr ce \<Rightarrow> CheckedExprToAst eng ce) = Inr prg"
    and "convert_bindings (env_TypeAdapter eng env) (Bindings inp) Map.empty = Inr args"
    and "prg args = (res, Some err)"
  shows "Eval eng inp =
     Inr (Some \<lparr>Result = Some \<lparr>Kind = Some (ExprValue_Error
                                    \<lparr>Errors = [status_Convert err]\<rparr>)\<rparr>,
                Issues_eval = []\<rparr>)"
proof -
  have "Eval_program eng env prg inp =
     Inr (Some \<lparr>Result = Some \<lparr>Kind = Some (ExprValue_Error
                                    \<lparr>Errors = [status_Convert err]\<rparr>)\<rparr>,
                Issues_eval = []\<rparr>)"
    using assms(4,5) by (simp add: Eval_program_def RefValueToExprValue_def Proto_def)
  then show ?thesis
    using assms(1,2,3) by (cases k) (simp_all add: Eval_def Let_def)
qed

theorem Eval_error_is_data_witness:
  "ExprKind \<lparr>ExprKind = Some (EvalRequest_ParsedExpr ''1 / 0''),
             Bindings = [(''x'', \<lparr>Kind = Some (ExprValue_Value (Int64Value 1))\<rparr>)],
             Container = ''''\<rparr> = Some (EvalRequest_ParsedExpr ''1 / 0'')
   \<and> convert_bindings sample_adapter
        [(''x'', \<lparr>Kind = Some (ExprValue_Value (Int64Value 1))\<rparr>)] Map.empty
       = Inr [''x'' \<mapsto> Some (types_Int 1)]
   \<and> Eval sample_engine
        \<lparr>ExprKind = Some (EvalRequest_ParsedExpr ''1 / 0''),
         Bindings = [(''x'', \<lparr>Kind = Some (ExprValue_Value (Int64Value 1))\<rparr>)],
         Container = ''''\<rparr>
       = Inr (Some \<lparr>Result = Some \<lparr>Kind = Some (ExprValue_Error
                \<lparr>Errors = [\<lparr>code = 2, message = ''division by zero'', details = []\<rparr>]\<rparr>)\<rparr>,
                    Issues_eval = []\<rparr>)"
proof -
  let ?inp = "\<lparr>ExprKind = Some (EvalRequest_ParsedExpr ''1 / 0''),
               Bindings = [(''x'', \<lparr>Kind = Some (ExprValue_Value (Int64Value (1 :: int64)))\<rparr>)],
               Container = ''''\<rparr> :: (string, string, unit) EvalRequest"
  let ?env = "[cel_Container '''', cel_Types [test2pb_TestAllTypes, test3pb_TestAllTypes]]"
  let ?prg = "\<lambda>args :: string \<rightharpoonup> unit RefVal option.
                 (None :: unit RefVal option, Some (PlainError ''division by zero''))"
  have h1: "ExprKind ?inp = Some (EvalRequest_ParsedExpr ''1 / 0'')" by simp
  have h2: "?env = NewEnv sample_engine [cel_Container (Container ?inp),
                     cel_Types [test2pb_TestAllTypes, test3pb_TestAllTypes]]"
    by (simp add: sample_engine_def)
  have h3: "env_Program sample_engine ?env
              (case EvalRequest_ParsedExpr ''1 / 0'' of
                 EvalRequest_ParsedExpr pe \<Rightarrow> ParsedExprToAst sample_engine pe
               | EvalRequest_CheckedExpr ce \<Rightarrow> CheckedExprToAst sample_engine ce) = Inr ?prg"
    by (simp add: sample_engine_def sample_Program_def)
  have h4: "convert_bindings (env_TypeAdapter sample_engine ?env) (Bindings ?inp) Map.empty
              = Inr [''x'' \<mapsto> Some (types_Int 1)]"
    by (simp add: sample_engine_def ExprValueToRefValue_def)
  have h5: "?prg [''x'' \<mapsto> Some (types_Int 1)] = (None, Some (PlainError ''division by zero''))"
    by simp
  show ?thesis
    using Eval_error_is_data [OF h1 h2 h3 h4 h5] h4
    by (simp add: sample_engine_def status_New_def codes_Unknown_def)
qed

text \<open>
  C10. The syntax version of a request has no influence on \<^verbatim>\<open>Parse\<close>: two requests that
  differ in that field only get the same result, and the parser gets the same calls.
\<close>

theorem Parse_ignores_syntax_version:
  "Parse eng (inp\<lparr>SyntaxVersion := v\<rparr>) = Parse eng inp"
  by (simp add: Parse_def)

end
